theory Spec2Isabelle
  imports Main "HOL-Library.AList"
begin

section \<open>The operation queue of \<open>Database\<close> (core/mongodb/lib/database/index.js)\<close>

subsection \<open>Connection adapter\<close>

text \<open>
  Modelled from the spec: the \<open>MongoDBAdapter\<close> (core/mongodb/lib/adapter) is required by
  the Database but is not among the sources. Its states and transitions are those of the
  data model of the specification: \<open>closed \<rightarrow> connecting\<close> on \<open>connect()\<close>,
  \<open>connecting \<rightarrow> connected\<close> on success, \<open>connected \<rightarrow> disconnected\<close> on a disconnect
  event, and \<open>close()\<close> leads to \<open>closed\<close>. \<open>isConnected\<close> and \<open>isClosed\<close> are the
  state queries that \<open>exec\<close> and \<open>stop\<close> call.
\<close>

datatype adapter_state = Closed | Connecting | Connected | Disconnected

definition isConnected :: "adapter_state \<Rightarrow> bool" where
  "isConnected a = (a = Connected)"

definition isClosed :: "adapter_state \<Rightarrow> bool" where
  "isClosed a = (a = Closed)"

definition connect :: "adapter_state \<Rightarrow> adapter_state" where
  "connect a = (if a = Closed then Connecting else a)"

subsection \<open>Thunks and the Database state\<close>

text \<open>
  A queue entry is \<open>{callback: func}\<close>. A thunk is a JavaScript closure; what the queue
  can observe of it is that it was invoked (its \<open>label\<close> is appended to the log
  \<open>invoked\<close>) and which calls of \<open>this.exec(g)\<close> it makes while it runs (\<open>reenters\<close>, in
  order). The thunks of the CRUD methods issue an asynchronous store operation and return:
  their \<open>reenters\<close> is empty.

  The state is the part of the Database object that \<open>exec\<close> reads and writes:
  \<open>_adapter\<close>, \<open>_queue\<close>, \<open>_isActive\<close> (\<open>undefined\<close>, hence falsy, until \<open>start()\<close>),
  and the log of invocations. The record is extensible, so that the same functions run on
  the state of a Database with a heap and a configuration (below).
\<close>

datatype 'a thunk = Thunk (label: 'a) (reenters: "'a thunk list")

record 'a database =
  adapter :: adapter_state
  queue :: "'a thunk list"
  isActive :: bool
  invoked :: "'a list"

text \<open>
  The first argument of the functions below is a budget of calls and loop iterations.
  \<open>Overflow s\<close> is the state in which the budget ran out: the call did not return (in
  JavaScript an unbounded recursion ends in a RangeError that unwinds every frame and
  leaves the state as it is). \<open>Done s\<close> is a normal return.
\<close>

datatype 'a result = Done 'a | Overflow 'a

text \<open>
  \<^verbatim>\<open>
  exec: function (func) {
      var self = this;
      if (!_.isFunction(func)) { } else { this._queue.push({callback: func}); }
      function processQueue() {
          while (self._queue.length > 0) {
              self._queue[0].callback.apply(self);
              self._queue.shift();
          }
      }
      if (this._adapter.isConnected() && this.isActive()) { processQueue(); }
      else if (this._adapter.isClosed()) { this._adapter.connect(); }
  }
  \<close>
  \<open>exec n None\<close> is a call with no function. \<open>apply_thunk\<close> is
  \<open>callback.apply(self)\<close>: the invocation is logged and the thunk's own calls of \<open>exec\<close>
  run (\<open>exec_each\<close>) before it returns. \<open>shift()\<close> on an empty array does nothing, as
  \<open>tl []\<close>.
\<close>

fun exec :: "nat \<Rightarrow> 'a thunk option \<Rightarrow> ('a, 'z) database_scheme \<Rightarrow> ('a, 'z) database_scheme result"
and processQueue :: "nat \<Rightarrow> ('a, 'z) database_scheme \<Rightarrow> ('a, 'z) database_scheme result"
and apply_thunk :: "nat \<Rightarrow> 'a thunk \<Rightarrow> ('a, 'z) database_scheme \<Rightarrow> ('a, 'z) database_scheme result"
and exec_each :: "nat \<Rightarrow> 'a thunk list \<Rightarrow> ('a, 'z) database_scheme \<Rightarrow> ('a, 'z) database_scheme result"
where
  "exec 0 func s = Overflow s"
| "exec (Suc n) func s =
    (let s1 = (case func of None \<Rightarrow> s | Some f \<Rightarrow> s\<lparr>queue := queue s @ [f]\<rparr>) in
     if isConnected (adapter s1) \<and> isActive s1 then processQueue n s1
     else if isClosed (adapter s1) then Done (s1\<lparr>adapter := connect (adapter s1)\<rparr>)
     else Done s1)"
| "processQueue 0 s = Overflow s"
| "processQueue (Suc n) s =
    (case queue s of
       [] \<Rightarrow> Done s
     | t # _ \<Rightarrow>
        (case apply_thunk n t s of
           Overflow s' \<Rightarrow> Overflow s'
         | Done s' \<Rightarrow> processQueue n (s'\<lparr>queue := tl (queue s')\<rparr>)))"
| "apply_thunk 0 t s = Overflow s"
| "apply_thunk (Suc n) t s = exec_each n (reenters t) (s\<lparr>invoked := invoked s @ [label t]\<rparr>)"
| "exec_each 0 ts s = Overflow s"
| "exec_each (Suc n) [] s = Done s"
| "exec_each (Suc n) (t # ts) s =
    (case exec n (Some t) s of
       Overflow s' \<Rightarrow> Overflow s'
     | Done s' \<Rightarrow> exec_each n ts s')"

text \<open>
  \<^verbatim>\<open>start: function () { this._isActive = true; this.exec(); }\<close>
\<close>

definition start :: "nat \<Rightarrow> ('a, 'z) database_scheme \<Rightarrow> ('a, 'z) database_scheme result" where
  "start n s = exec n None (s\<lparr>isActive := True\<rparr>)"

text \<open>
  \<^verbatim>\<open>
  stop: function (callback) {
      this._isActive = false;
      if (!this._adapter.isClosed()) { this._adapter.close(callback); } else { callback(); }
  }
  \<close>
  The caller's callback is outside the model; \<open>close\<close> leaves the adapter closed.
\<close>

definition stop :: "('a, 'z) database_scheme \<Rightarrow> ('a, 'z) database_scheme" where
  "stop s = (let s1 = s\<lparr>isActive := False\<rparr> in
             if \<not> isClosed (adapter s1) then s1\<lparr>adapter := Closed\<rparr> else s1)"

text \<open>
  \<^verbatim>\<open>
  onDBAdapterConnected: function (callback, options) {
      ...
      this._adapter.on('disconnected', function () { this._isActive = false; });
      this._adapter.connect({
          onSuccess: function () {
              callback.call(_options.context, self._adapter);
              self.exec(function () { })
          }
      });
  }
  \<close>
  A disconnect event takes a connected adapter to \<open>disconnected\<close> and runs the listener.
  The listener writes \<open>_isActive\<close> of its receiver \<open>this\<close>; which object the adapter
  (not among the sources) passes as receiver is a parameter: \<open>listener_on_db\<close> holds when
  it is the Database, and otherwise the Database's own \<open>_isActive\<close> is left as it is.

  \<open>onSuccess\<close> is the success notification of the connect request of the constructor:
  the adapter is connected, the constructor's callback calls \<open>this.start()\<close>, and then
  the empty thunk (labelled \<open>kick\<close>) is passed to \<open>exec\<close>.
\<close>

definition on_disconnected :: "bool \<Rightarrow> ('a, 'z) database_scheme \<Rightarrow> ('a, 'z) database_scheme" where
  "on_disconnected listener_on_db s =
     (let s1 = s\<lparr>adapter := (if adapter s = Connected then Disconnected else adapter s)\<rparr> in
      if listener_on_db then s1\<lparr>isActive := False\<rparr> else s1)"

definition onSuccess :: "nat \<Rightarrow> 'a \<Rightarrow> ('a, 'z) database_scheme \<Rightarrow> ('a, 'z) database_scheme result" where
  "onSuccess n kick s =
     (case start n (s\<lparr>adapter := Connected\<rparr>) of
        Overflow s' \<Rightarrow> Overflow s'
      | Done s' \<Rightarrow> exec n (Some (Thunk kick [])) s')"

text \<open>
  What can happen to one Database instance, one event at a time (JavaScript runs each to
  completion before the next): a call \<open>exec(f)\<close>, a call \<open>exec()\<close>, \<open>start()\<close>,
  \<open>stop()\<close>, a disconnect event, and the success of the connect request.
\<close>

datatype 'a event = Exec "'a thunk" | Kick | Start | Stop | Disconnect bool | ConnectSuccess 'a

fun reconnects :: "'a event \<Rightarrow> bool" where
  "reconnects (ConnectSuccess _) = True"
| "reconnects _ = False"

fun step :: "nat \<Rightarrow> 'a event \<Rightarrow> ('a, 'z) database_scheme \<Rightarrow> ('a, 'z) database_scheme result" where
  "step n (Exec f) s = exec n (Some f) s"
| "step n Kick s = exec n None s"
| "step n Start s = start n s"
| "step n Stop s = Done (stop s)"
| "step n (Disconnect b) s = Done (on_disconnected b s)"
| "step n (ConnectSuccess kick) s = onSuccess n kick s"

fun run :: "nat \<Rightarrow> 'a event list \<Rightarrow> ('a, 'z) database_scheme \<Rightarrow> ('a, 'z) database_scheme result" where
  "run n [] s = Done s"
| "run n (e # es) s =
     (case step n e s of
        Overflow s' \<Rightarrow> Overflow s'
      | Done s' \<Rightarrow> run n es s')"

text \<open>The thunks passed to \<open>exec\<close> by a sequence of events, in the order of the calls.\<close>

fun submitted :: "'a event list \<Rightarrow> 'a thunk list" where
  "submitted [] = []"
| "submitted (Exec f # es) = f # submitted es"
| "submitted (_ # es) = submitted es"

text \<open>The state reached by a call, whether it returned or not.\<close>

fun state_of :: "'a result \<Rightarrow> 'a" where
  "state_of (Done s) = s"
| "state_of (Overflow s) = s"

section \<open>JavaScript values, objects and \<open>_.defaults\<close>\<close>

text \<open>
  The values that the data-access layer passes around. \<open>Obj\<close> is an object held by
  value (an object literal, a document handed to a callback); \<open>Ref r\<close> is a reference to
  a mutable object of the caller that lives at address \<open>r\<close> of the heap, so that a write
  through one alias is seen through every other. \<open>Fn k\<close> is a function value, \<open>ObjectId\<close>
  the store's internal identifier, \<open>Error\<close> and \<open>DBError\<close> the error objects
  \<open>new Error(msg)\<close> and \<open>new DBError(err)\<close>. \<open>truthy\<close> is JavaScript's conversion to
  boolean; a missing property reads as \<open>undefined\<close> (\<open>get\<close>).
\<close>

datatype jsval =
    Undefined | Null | Bool bool | Num int | Str string | ObjectId nat
  | Obj "(string \<times> jsval) list" | Arr "jsval list"
  | Fn nat | Ref nat | Error string | DBError jsval

type_synonym obj = "(string \<times> jsval) list"
type_synonym heap = "nat \<Rightarrow> obj"

fun truthy :: "jsval \<Rightarrow> bool" where
  "truthy Undefined = False"
| "truthy Null = False"
| "truthy (Bool b) = b"
| "truthy (Num n) = (n \<noteq> 0)"
| "truthy (Str s) = (s \<noteq> [])"
| "truthy _ = True"

definition get :: "obj \<Rightarrow> string \<Rightarrow> jsval" where
  "get object k = (case map_of object k of None \<Rightarrow> Undefined | Some v \<Rightarrow> v)"

definition read_prop :: "heap \<Rightarrow> jsval \<Rightarrow> string \<Rightarrow> jsval" where
  "read_prop h v k = (case v of Ref r \<Rightarrow> get (h r) k | Obj object \<Rightarrow> get object k | _ \<Rightarrow> Undefined)"

definition isPlainObject :: "jsval \<Rightarrow> bool" where
  "isPlainObject v = (case v of Ref r \<Rightarrow> True | Obj object \<Rightarrow> True | _ \<Rightarrow> False)"

text \<open>
  \<open>_.defaults(object, source1, source2, ...)\<close> of lodash: for every source in turn and
  every key of the source, the key is assigned on \<open>object\<close> when \<open>object[key]\<close> is
  \<open>undefined\<close>. A source that is \<open>null\<close> or \<open>undefined\<close> is skipped. The first argument is
  mutated and returned; when it is \<open>null\<close> or \<open>undefined\<close> a fresh object is filled and
  returned instead (\<open>Object(object)\<close>), and the caller's variable stays as it was.
\<close>

definition assign_default :: "obj \<Rightarrow> string \<Rightarrow> obj \<Rightarrow> obj" where
  "assign_default source k object =
     (if get object k = Undefined then AList.update k (get source k) object else object)"

definition defaults1 :: "obj \<Rightarrow> obj \<Rightarrow> obj" where
  "defaults1 object source = fold (assign_default source) (remdups (map fst source)) object"

definition source_of :: "heap \<Rightarrow> jsval \<Rightarrow> obj" where
  "source_of h v = (case v of Ref r \<Rightarrow> h r | Obj object \<Rightarrow> object | _ \<Rightarrow> [])"

definition fill :: "heap \<Rightarrow> jsval list \<Rightarrow> obj \<Rightarrow> obj" where
  "fill h sources object = fold (\<lambda>src acc. defaults1 acc (source_of h src)) sources object"

definition defaults :: "heap \<Rightarrow> jsval \<Rightarrow> jsval list \<Rightarrow> heap \<times> jsval" where
  "defaults h object sources =
     (case object of
        Ref r \<Rightarrow> (h(r := fill h sources (h r)), Ref r)
      | Obj literal \<Rightarrow> (h, Obj (fill h sources literal))
      | _ \<Rightarrow> (h, Obj (fill h sources [])))"

subsection \<open>Documents and completion callbacks\<close>

text \<open>
  A document of the store: its internal identifier (an ObjectId, whose \<open>toString()\<close> is
  24 lower-case hexadecimal digits) and its other fields. \<open>doc_obj\<close> is the plain object
  that a callback receives (\<open>lean()\<close>, \<open>toObject()\<close>). Where the driver passes no
  document (\<open>undefined\<close> when it calls back with the error alone, \<open>null\<close> when a lookup
  matches nothing; the code only tests it for truthiness or dereferences it) the model
  has \<open>None\<close>. \<open>opt_doc\<close> is the second argument as a callback that is handed the
  driver's arguments along with an error reads it: \<open>undefined\<close> when no document was
  passed.
\<close>

record ldoc =
  oid :: nat
  doc_fields :: obj

definition hexdigit :: "nat \<Rightarrow> char" where
  "hexdigit d = ''0123456789abcdef'' ! (d mod 16)"

fun hex_digits :: "nat \<Rightarrow> nat \<Rightarrow> string" where
  "hex_digits 0 n = []"
| "hex_digits (Suc k) n = hex_digits k (n div 16) @ [hexdigit n]"

definition oid_toString :: "nat \<Rightarrow> string" where
  "oid_toString n = hex_digits 24 n"

definition doc_obj :: "ldoc \<Rightarrow> jsval" where
  "doc_obj d = Obj ((''_id'', ObjectId (oid d)) # doc_fields d)"

definition opt_doc :: "ldoc option \<Rightarrow> jsval" where
  "opt_doc r = (case r of None \<Rightarrow> Undefined | Some d \<Rightarrow> doc_obj d)"

text \<open>
  What a completion path does in the end: it calls a function (the callee, its receiver
  \<open>this\<close> and the arguments), it calls nothing because no callback is configured, or it
  throws. \<open>complete_apply\<close> is
  \<^verbatim>\<open>if (_options.complete) _options.complete.apply(_options.context, args)\<close> and
  \<open>complete_call\<close> is \<^verbatim>\<open>if (_options.complete) _options.complete(args)\<close>.
\<close>

datatype outcome = Called jsval jsval "jsval list" | Silent | Threw string

definition invoke :: "jsval \<Rightarrow> jsval \<Rightarrow> jsval list \<Rightarrow> outcome" where
  "invoke f this args = (case f of Fn k \<Rightarrow> Called f this args | _ \<Rightarrow> Threw ''TypeError'')"

definition complete_apply :: "heap \<Rightarrow> jsval \<Rightarrow> jsval list \<Rightarrow> outcome" where
  "complete_apply h opts args =
     (if truthy (read_prop h opts ''complete'')
      then invoke (read_prop h opts ''complete'') (read_prop h opts ''context'') args
      else Silent)"

definition complete_call :: "heap \<Rightarrow> jsval \<Rightarrow> jsval list \<Rightarrow> outcome" where
  "complete_call h opts args =
     (if truthy (read_prop h opts ''complete'')
      then invoke (read_prop h opts ''complete'') opts args
      else Silent)"

section \<open>The CRUD methods (database/index.js, animal.js, timestamped.js)\<close>

text \<open>
  Modelled from the spec: the \<open>Animal\<close> value object (core/lib/animal) is not among the
  sources; an animal is what \<open>getValue('petId')\<close>, \<open>toQuery()\<close> and \<open>toMongooseDoc()\<close>
  return for it.

  Every method merges defaults into \<open>options\<close> and passes a thunk to \<open>exec\<close>. The thunks
  are closures; \<open>closure\<close> names each with the variables it captures (\<open>options\<close> is the
  caller's argument, \<open>opts\<close> the value of \<open>_options\<close>). \<open>KickT\<close> is the empty function
  of \<open>onDBAdapterConnected\<close>. The thunk of \<open>update\<close> captures the variable \<open>options\<close> as
  it reads after the merge: an object of the caller has been filled in place (a \<open>Ref\<close>
  through the heap, an object held by value as the filled value, which is \<open>_options\<close>),
  and an omitted argument is still \<open>undefined\<close>.
\<close>

record animal =
  petIdValue :: jsval
  toQuery :: obj
  toMongooseDoc :: obj

datatype closure =
    FindOneT obj jsval
  | FindLatestT jsval
  | UpdateT obj obj jsval jsval
  | CreateT obj jsval
  | RemoveAnimalT animal jsval
  | FindAnimalsT obj jsval
  | SaveAnimalT obj obj jsval
  | KickT

text \<open>
  The state of a Database with the heap of the objects it shares with its callers and
  \<open>this._config.queryOptions\<close> (\<open>undefined\<close> unless configured; the AnimalDatabase
  configures \<open>{complete: ..., isV1Format: true}\<close>).
\<close>

record world = "closure database" +
  heap :: heap
  queryOptions :: jsval

text \<open>
  \<^verbatim>\<open>
  findOne: function (props, options) {
      var self = this, _options = _.defaults(options, self._config.queryOptions);
      this.exec(function () { self.MongooseModel.findOne(props).lean().exec(...) })
  }
  findLatest: function (options) {
      var self = this, _options = _.defaults(options, self._config.queryOptions);
      this.exec(function () { self.MongooseModel.getLatest(...) });
  }
  update: function (whereProps, saveProps, options) {
      var self = this,
          _options = _.defaults(options, {new: true, upsert: true}, self._config.queryOptions);
      this.exec(function () { ... });
  }
  create: function (saveProps, options) {
      var self = this, _options = _.defaults(options, self._config.queryOptions);
      this.exec(function () { ... });
  }
  \<close>
  and likewise \<open>removeAnimal(animal, options)\<close>, \<open>findAnimals(props, options)\<close> and
  \<open>saveAnimal(animal, options)\<close> of the AnimalDatabase, where \<open>saveAnimal\<close> evaluates
  \<open>animal.toQuery()\<close> and \<open>animal.toMongooseDoc()\<close> before the call of \<open>exec\<close>.
\<close>

definition findOne :: "nat \<Rightarrow> obj \<Rightarrow> jsval \<Rightarrow> world \<Rightarrow> world result" where
  "findOne n props options w =
     (case defaults (heap w) options [queryOptions w] of
        (h, opts) \<Rightarrow> exec n (Some (Thunk (FindOneT props opts) [])) (w\<lparr>heap := h\<rparr>))"

definition findLatest :: "nat \<Rightarrow> jsval \<Rightarrow> world \<Rightarrow> world result" where
  "findLatest n options w =
     (case defaults (heap w) options [queryOptions w] of
        (h, opts) \<Rightarrow> exec n (Some (Thunk (FindLatestT opts) [])) (w\<lparr>heap := h\<rparr>))"

definition update :: "nat \<Rightarrow> obj \<Rightarrow> obj \<Rightarrow> jsval \<Rightarrow> world \<Rightarrow> world result" where
  "update n whereProps saveProps options w =
     (case defaults (heap w) options
             [Obj [(''new'', Bool True), (''upsert'', Bool True)], queryOptions w] of
        (h, opts) \<Rightarrow>
          exec n (Some (Thunk (UpdateT whereProps saveProps
                                 (case options of Obj literal \<Rightarrow> opts | _ \<Rightarrow> options) opts) []))
            (w\<lparr>heap := h\<rparr>))"

definition create :: "nat \<Rightarrow> obj \<Rightarrow> jsval \<Rightarrow> world \<Rightarrow> world result" where
  "create n saveProps options w =
     (case defaults (heap w) options [queryOptions w] of
        (h, opts) \<Rightarrow> exec n (Some (Thunk (CreateT saveProps opts) [])) (w\<lparr>heap := h\<rparr>))"

definition removeAnimal :: "nat \<Rightarrow> animal \<Rightarrow> jsval \<Rightarrow> world \<Rightarrow> world result" where
  "removeAnimal n a options w =
     (case defaults (heap w) options [queryOptions w] of
        (h, opts) \<Rightarrow> exec n (Some (Thunk (RemoveAnimalT a opts) [])) (w\<lparr>heap := h\<rparr>))"

definition findAnimals :: "nat \<Rightarrow> obj \<Rightarrow> jsval \<Rightarrow> world \<Rightarrow> world result" where
  "findAnimals n props options w =
     (case defaults (heap w) options [queryOptions w] of
        (h, opts) \<Rightarrow> exec n (Some (Thunk (FindAnimalsT props opts) [])) (w\<lparr>heap := h\<rparr>))"

definition saveAnimal :: "nat \<Rightarrow> animal \<Rightarrow> jsval \<Rightarrow> world \<Rightarrow> world result" where
  "saveAnimal n a options w =
     (case defaults (heap w) options [queryOptions w] of
        (h, opts) \<Rightarrow>
          exec n (Some (Thunk (SaveAnimalT (toQuery a) (toMongooseDoc a) opts) [])) (w\<lparr>heap := h\<rparr>))"

text \<open>
  The call on the Mongoose model that a thunk makes when it is invoked: a method of the
  driver, or one of the static methods this repository adds (\<open>getLatest\<close>,
  \<open>findAnimals\<close>, \<open>upsert\<close>), which in turn call the driver. The thunk of \<open>update\<close> is
  \<^verbatim>\<open>
  var doc = new self.MongooseModel(saveProps), data = doc.toObject();
  delete data._id;
  delete data.__v;
  self.MongooseModel.findOneAndUpdate(whereProps, data, options).lean().exec(...)
  \<close>
  where the third argument is \<open>options\<close>, the caller's argument, not \<open>_options\<close>. What
  \<open>new MongooseModel(p).toObject()\<close> yields depends on the schema, which is not among the
  sources: it is the parameter \<open>instantiate\<close>.
\<close>

datatype model_call =
    FindOne obj
  | GetLatest
  | FindOneSorted obj obj
  | FindOneAndUpdate obj obj jsval
  | SaveDoc obj
  | Create obj
  | Remove obj
  | FindAnimals obj jsval
  | Find obj
  | Upsert obj obj jsval

definition thunk_body :: "(obj \<Rightarrow> obj) \<Rightarrow> heap \<Rightarrow> closure \<Rightarrow> model_call option" where
  "thunk_body instantiate h c =
     (case c of
        FindOneT props opts \<Rightarrow> Some (FindOne props)
      | FindLatestT opts \<Rightarrow> Some GetLatest
      | UpdateT whereProps saveProps options opts \<Rightarrow>
          Some (FindOneAndUpdate whereProps
                  (AList.delete ''__v'' (AList.delete ''_id'' (instantiate saveProps))) options)
      | CreateT saveProps opts \<Rightarrow> Some (SaveDoc (instantiate saveProps))
      | RemoveAnimalT a opts \<Rightarrow> Some (Remove [(''_id'', petIdValue a)])
      | FindAnimalsT props opts \<Rightarrow>
          Some (FindAnimals props (Obj [(''isV1Format'', read_prop h opts ''isV1Format'')]))
      | SaveAnimalT query animalDocData opts \<Rightarrow>
          Some (Upsert query animalDocData (Obj [(''isV1Format'', read_prop h opts ''isV1Format'')]))
      | KickT \<Rightarrow> None)"

subsection \<open>The static \<open>upsert\<close> of the animal collection and its hooks (animal.js)\<close>

text \<open>
  \<^verbatim>\<open>
  function (searchProps, saveData, options, callback) {
      var hasOptions = _.isPlainObject(options),
          _options = _.defaults(hasOptions ? options : {}, {upsert: true, new: true}),
          onComplete = (hasOptions) ? callback : options, ...
      if (searchProps.petId) {
          model.findOneAndUpdate({petId: searchProps.petId}, saveData, _options).lean()
              .exec(function (err, animal) {
                  if (err) { self.error(err); }
                  else { self.log(Debuggable.LOW, 'updated animal: %s', animal._id); }
                  if (onComplete) onComplete(err, animal);
              });
      } else {
          model.create(saveData, function (err, newAnimal) {
              if (!err && !newAnimal) err = new Error("Animal could not be created");
              if (onComplete) {
                  if (err) { onComplete(err) }
                  else { var newAnimalData = newAnimal.toObject(); ...
                         onComplete(null, newAnimalData); }
              }
          })
      }
  }
  \<close>
  \<open>upsert\<close> gives the heap after the merge of the defaults, the call it makes on the
  model and the function it will complete with; \<open>upsert_updated\<close> and \<open>upsert_created\<close>
  are the two callbacks, applied to the driver's reply.
\<close>

definition upsert :: "heap \<Rightarrow> obj \<Rightarrow> obj \<Rightarrow> jsval \<Rightarrow> jsval \<Rightarrow> heap \<times> model_call \<times> jsval" where
  "upsert h searchProps saveData options callback =
     (let hasOptions = isPlainObject options in
      case defaults h (if hasOptions then options else Obj [])
             [Obj [(''upsert'', Bool True), (''new'', Bool True)]] of
        (h', opts) \<Rightarrow>
          (let onComplete = (if hasOptions then callback else options) in
           if truthy (get searchProps ''petId'')
           then (h', FindOneAndUpdate [(''petId'', get searchProps ''petId'')] saveData opts, onComplete)
           else (h', Create saveData, onComplete)))"

definition upsert_updated :: "jsval \<Rightarrow> jsval \<times> ldoc option \<Rightarrow> outcome" where
  "upsert_updated onComplete reply =
     (case reply of (err, animal) \<Rightarrow>
        if \<not> truthy err \<and> animal = None then Threw ''TypeError''
        else if truthy onComplete then invoke onComplete Undefined [err, opt_doc animal]
        else Silent)"



definition post_findOneAndUpdate :: "ldoc option \<Rightarrow> ldoc option" where
  "post_findOneAndUpdate doc =
     (case doc of
        None \<Rightarrow> None
      | Some d \<Rightarrow> Some (d\<lparr>doc_fields := AList.update ''petId'' (Str (oid_toString (oid d))) (doc_fields d)\<rparr>))"







subsection \<open>Completion paths\<close>

text \<open>
  The callbacks that the thunks pass to the driver, applied to the driver's reply
  \<open>(err, result)\<close>.
  \<^verbatim>\<open>
  findOne:  if (err || !queriedDoc) err = new DBError(err || 'No results returned');
            if (_options.complete)
                _options.complete.apply(_options.context, [err, queriedDoc ? queriedDoc : {}]);
  update:   if (err) { err = new DBError(err); self.error(err); }
            if (_options.complete)
                _options.complete.apply(_options.context, [err, (savedDoc) ? savedDoc : {}])
  create:   if (err) { err = new DBError(err); self.error(err); }
            var savedObj = savedDoc.toObject ? savedDoc.toObject() : savedDoc;
            if (_options.complete)
                _options.complete.apply(_options.context, [err, (savedObj) ? savedObj : {}])
  \<close>
  In \<open>create\<close> the property \<open>toObject\<close> of \<open>savedDoc\<close> is read before anything else:
  with no document this is a TypeError.
\<close>

definition findOne_done :: "heap \<Rightarrow> jsval \<Rightarrow> jsval \<times> ldoc option \<Rightarrow> outcome" where
  "findOne_done h opts reply =
     (case reply of (err, queriedDoc) \<Rightarrow>
        (let err' = (if truthy err \<or> queriedDoc = None
                     then DBError (if truthy err then err else Str ''No results returned'')
                     else err) in
         complete_apply h opts
           [err', (case queriedDoc of None \<Rightarrow> Obj [] | Some d \<Rightarrow> doc_obj d)]))"

definition update_done :: "heap \<Rightarrow> jsval \<Rightarrow> jsval \<times> ldoc option \<Rightarrow> outcome" where
  "update_done h opts reply =
     (case reply of (err, savedDoc) \<Rightarrow>
        (let err' = (if truthy err then DBError err else err) in
         complete_apply h opts
           [err', (case savedDoc of None \<Rightarrow> Obj [] | Some d \<Rightarrow> doc_obj d)]))"

definition create_done :: "heap \<Rightarrow> jsval \<Rightarrow> jsval \<times> ldoc option \<Rightarrow> outcome" where
  "create_done h opts reply =
     (case reply of (err, savedDoc) \<Rightarrow>
        (let err' = (if truthy err then DBError err else err) in
         case savedDoc of
           None \<Rightarrow> Threw ''TypeError''
         | Some d \<Rightarrow>
             (let savedObj = doc_obj d in
              complete_apply h opts [err', if truthy savedObj then savedObj else Obj []])))"

text \<open>
  The static \<open>findAnimals\<close> of the collection and the callback of the method
  \<open>findAnimals\<close>:
  \<^verbatim>\<open>
  function (props, options, callback) {
      var hasOptions = _.isPlainObject(options), ...
          onComplete = (hasOptions) ? callback : options,
          animalQuery = new AnimalQuery(props), query = animalQuery.toMongoQuery();
      this.model(...).find(query).lean().exec(function (err, animals) {
          if (err) { self.error(err); onComplete(err); }
          else { self.log(..., animals.length, query); ...; onComplete(err, animals); }
      })
  }

  function (err, animals) {
      if (err) { err = new DBError(err); self.error(err); }
      if (_options.complete) _options.complete(err, animals.map(function (animalData) {
          var newAnimal = new Animal(animalData.props);
          newAnimal.setValue('petId', animalData._id.toString());
          return _options.isV1Format ? newAnimal.toObject() : newAnimal.toLeanObject();
      }));
  }
  \<close>
  The query translation (\<open>AnimalQuery\<close>) and the two renderings of an \<open>Animal\<close> are not
  among the sources: they are the parameters \<open>toMongoQuery\<close> and \<open>render\<close> (the format
  flag, the \<open>props\<close> of the document and its \<open>petId\<close>). \<open>findAnimals_reply\<close> chains the
  two callbacks on the driver's reply to \<open>find\<close>; likewise the callback of
  \<open>saveAnimal\<close>.
\<close>

definition static_findAnimals ::
  "(obj \<Rightarrow> obj) \<Rightarrow> obj \<Rightarrow> jsval \<Rightarrow> jsval \<Rightarrow> model_call \<times> jsval" where
  "static_findAnimals toMongoQuery props options callback =
     (let hasOptions = isPlainObject options;
          onComplete = (if hasOptions then callback else options)
      in (Find (toMongoQuery props), onComplete))"

definition static_findAnimals_found ::
  "jsval \<times> ldoc list option \<Rightarrow> string + jsval \<times> ldoc list option" where
  "static_findAnimals_found reply =
     (case reply of (err, animals) \<Rightarrow>
        if truthy err then Inr (err, None)
        else (case animals of
                None \<Rightarrow> Inl ''TypeError''
              | Some xs \<Rightarrow> Inr (err, Some xs)))"

definition findAnimals_done ::
  "(bool \<Rightarrow> jsval \<Rightarrow> string \<Rightarrow> jsval) \<Rightarrow> heap \<Rightarrow> jsval \<Rightarrow> jsval \<times> ldoc list option \<Rightarrow> outcome" where
  "findAnimals_done render h opts args =
     (case args of (err, animals) \<Rightarrow>
        (let err' = (if truthy err then DBError err else err) in
         if truthy (read_prop h opts ''complete'') then
           (case animals of
              None \<Rightarrow> Threw ''TypeError''
            | Some xs \<Rightarrow>
                invoke (read_prop h opts ''complete'') opts
                  [err', Arr (map (\<lambda>animalData.
                            render (truthy (read_prop h opts ''isV1Format''))
                              (get (doc_fields animalData) ''props'')
                              (oid_toString (oid animalData))) xs)])
         else Silent))"

definition findAnimals_reply ::
  "(bool \<Rightarrow> jsval \<Rightarrow> string \<Rightarrow> jsval) \<Rightarrow> heap \<Rightarrow> jsval \<Rightarrow> jsval \<times> ldoc list option \<Rightarrow> outcome" where
  "findAnimals_reply render h opts reply =
     (case static_findAnimals_found reply of
        Inl e \<Rightarrow> Threw e
      | Inr args \<Rightarrow> findAnimals_done render h opts args)"

definition saveAnimal_done ::
  "(bool \<Rightarrow> jsval \<Rightarrow> string \<Rightarrow> jsval) \<Rightarrow> heap \<Rightarrow> jsval \<Rightarrow> jsval \<times> ldoc option \<Rightarrow> outcome" where
  "saveAnimal_done render h opts args =
     (case args of (err, animalDoc) \<Rightarrow>
        if truthy err then complete_call h opts [DBError err]
        else (case animalDoc of
                Some d \<Rightarrow>
                  complete_call h opts
                    [err, render (truthy (read_prop h opts ''isV1Format''))
                            (get (doc_fields d) ''props'') (oid_toString (oid d))]
              | None \<Rightarrow> complete_call h opts [DBError (Str ''Animal Not Saved'')]))"

text \<open>
  Modelled from the spec: the driver's reply to an operation that either fails with an
  error or yields a result, and its \<open>findOne({}).sort({timestamp: -1})\<close> on a collection
  (filter none, sort by timestamp descending, take one; no document when the collection
  is empty).
\<close>

definition driver_reply :: "jsval \<Rightarrow> 'a \<Rightarrow> jsval \<times> 'a option" where
  "driver_reply err result = (if truthy err then (err, None) else (Null, Some result))"

definition stamp_less :: "ldoc \<Rightarrow> ldoc \<Rightarrow> bool" where
  "stamp_less a b =
     (case (get (doc_fields a) ''timestamp'', get (doc_fields b) ''timestamp'') of
        (Num x, Num y) \<Rightarrow> x < y
      | (Num x, _) \<Rightarrow> False
      | (_, Num y) \<Rightarrow> True
      | _ \<Rightarrow> False)"

fun latest_of :: "ldoc list \<Rightarrow> ldoc option" where
  "latest_of [] = None"
| "latest_of (d # ds) =
     (case latest_of ds of
        None \<Rightarrow> Some d
      | Some b \<Rightarrow> if stamp_less d b then Some b else Some d)"

definition findOne_sorted :: "jsval \<Rightarrow> ldoc list \<Rightarrow> jsval \<times> ldoc option" where
  "findOne_sorted err collection = (if truthy err then (err, None) else (Null, latest_of collection))"

subsection \<open>\<open>getLatest\<close>, \<open>findLatest\<close> and \<open>cacheData\<close> (timestamped.js, database/index.js)\<close>

text \<open>
  \<^verbatim>\<open>
  TimestampedMongooseModel.findOne({}).lean().sort({timestamp: -1})
      .exec(function (err, latestModel) {
          if (err) { callback(err) }
          else if (!latestModel) { callback(new Error('Model collection is empty()')); }
          else { callback(null, latestModel); }
      })
  \<close>
\<close>

definition getLatest_query :: model_call where
  "getLatest_query = FindOneSorted [] [(''timestamp'', Num (- 1))]"

definition getLatest_found :: "jsval \<times> ldoc option \<Rightarrow> jsval \<times> ldoc option" where
  "getLatest_found reply =
     (case reply of (err, latestModel) \<Rightarrow>
        if truthy err then (err, None)
        else (case latestModel of
                None \<Rightarrow> (Error ''Model collection is empty()'', None)
              | Some d \<Rightarrow> (Null, Some d)))"

text \<open>
  \<^verbatim>\<open>
  cacheData: function (name, data, options) {
      var self = this, _options = _.defaults(options, {type: ['json']}),
          cacheParams = {name: name, dir: _options.dir, done: _options.done};
      if (_.isArray(_options.type)) {
          _.forEach(_options.type, function (cacheType) {
              self._cache.save(cacheType, data, cacheParams)
          })
      } else { this._cache.save(_options.type, data, cacheParams); }
  }
  \<close>
  The result is the list of the calls of \<open>_cache.save\<close>, in order.
\<close>

datatype cache_type = TypeList "string list" | TypeOne string | TypeUnset

record cache_save =
  format :: string
  payload :: ldoc
  cache_name :: string
  cache_dir :: string

definition cacheData :: "string \<Rightarrow> ldoc \<Rightarrow> cache_type \<Rightarrow> string \<Rightarrow> cache_save list" where
  "cacheData name data type dir =
     (case (case type of TypeUnset \<Rightarrow> TypeList [''json''] | t \<Rightarrow> t) of
        TypeList ts \<Rightarrow>
          map (\<lambda>cacheType. \<lparr>format = cacheType, payload = data, cache_name = name, cache_dir = dir\<rparr>) ts
      | TypeOne t \<Rightarrow> [\<lparr>format = t, payload = data, cache_name = name, cache_dir = dir\<rparr>]
      | TypeUnset \<Rightarrow> [])"

definition path_join :: "string \<Rightarrow> string \<Rightarrow> string" where
  "path_join a b = (if a \<noteq> [] \<and> last a = CHR ''/'' then a @ b else a @ ''/'' @ b)"

text \<open>
  \<^verbatim>\<open>
  self.MongooseModel.getLatest(function (err, doc) {
      if (err || !doc) {
          err = new DBError(err || "No docs found");
          self.error(err);
          if (_options.complete) _options.complete(err);
      } else {
          var cacheNamespace = util.format('%s.%s',
              self.getConfig('speciesName') || self.collection.getCollectionName(),
              moment(doc.timestamp).format('M.D.YYYY'));
          self.cacheData(cacheNamespace, doc, {
              dir: path.join(process.cwd(), 'data/'),
              type: ['json'],
              done: function (cacheSaveErr) {
                  self.log(Debuggable.LOW, 'updated cached species props');
                  if (_options.complete) _options.complete(cacheSaveErr, doc);
              }
          });
      }
  });
  \<close>
  This is \<open>findLatest\<close> of the TimestampedDatabase; that of the Database is the same with
  \<open>self.modelFactory.getModelName()\<close> for the collection name, hence the parameter
  \<open>fallbackName\<close>. The configured \<open>speciesName\<close> is a string or absent. The date format
  of \<open>moment\<close> (a library, with the local time zone) is the parameter \<open>moment_format\<close>, and
  \<open>process.cwd()\<close> the parameter \<open>cwd\<close>.

  Modelled from the spec: the \<open>Cache\<close> (lib/cache) is not among the sources; its
  \<open>save(format, data, {name, dir, done})\<close> writes the data and invokes \<open>done(err)\<close> on
  completion. \<open>cache_error c\<close> is the error it reports for the save \<open>c\<close> (\<open>Null\<close> for
  none). \<open>findLatest_reply\<close> runs the whole path on the driver's reply: the saves
  requested of the cache and what each completion does.
\<close>

definition cacheNamespace :: "(jsval \<Rightarrow> string) \<Rightarrow> string option \<Rightarrow> string \<Rightarrow> ldoc \<Rightarrow> string" where
  "cacheNamespace moment_format speciesName fallbackName doc =
     (case speciesName of
        None \<Rightarrow> fallbackName
      | Some name \<Rightarrow> if name \<noteq> [] then name else fallbackName)
     @ ''.'' @ moment_format (get (doc_fields doc) ''timestamp'')"

definition findLatest_found ::
  "(jsval \<Rightarrow> string) \<Rightarrow> string option \<Rightarrow> string \<Rightarrow> string \<Rightarrow> heap \<Rightarrow> jsval \<Rightarrow> jsval \<times> ldoc option
     \<Rightarrow> outcome + cache_save list \<times> ldoc" where
  "findLatest_found moment_format speciesName fallbackName cwd h opts args =
     (case args of (err, doc) \<Rightarrow>
        (let failed = complete_call h opts [DBError (if truthy err then err else Str ''No docs found'')] in
         case doc of
           None \<Rightarrow> Inl failed
         | Some d \<Rightarrow>
             if truthy err then Inl failed
             else Inr (cacheData (cacheNamespace moment_format speciesName fallbackName d) d
                         (TypeList [''json'']) (path_join cwd ''data/''), d)))"

definition findLatest_cached :: "heap \<Rightarrow> jsval \<Rightarrow> ldoc \<Rightarrow> jsval \<Rightarrow> outcome" where
  "findLatest_cached h opts doc cacheSaveErr = complete_call h opts [cacheSaveErr, doc_obj doc]"

definition findLatest_reply ::
  "(jsval \<Rightarrow> string) \<Rightarrow> string option \<Rightarrow> string \<Rightarrow> string \<Rightarrow> (cache_save \<Rightarrow> jsval) \<Rightarrow> heap \<Rightarrow> jsval
     \<Rightarrow> jsval \<times> ldoc option \<Rightarrow> cache_save list \<times> outcome list" where
  "findLatest_reply moment_format speciesName fallbackName cwd cache_error h opts reply =
     (case findLatest_found moment_format speciesName fallbackName cwd h opts (getLatest_found reply) of
        Inl out \<Rightarrow> ([], [out])
      | Inr (saves, doc) \<Rightarrow> (saves, map (\<lambda>c. findLatest_cached h opts doc (cache_error c)) saves))"


section \<open>Properties of the queue\<close>

lemma apply_plain:
  "reenters t = [] \<Longrightarrow> apply_thunk (Suc (Suc n)) t s = Done (s\<lparr>invoked := invoked s @ [label t]\<rparr>)"
  by simp

lemma drain_plain:
  "\<forall>t\<in>set (queue s). reenters t = [] \<Longrightarrow> length (queue s) + 2 \<le> n \<Longrightarrow>
   processQueue n s = Done (s\<lparr>invoked := invoked s @ map label (queue s), queue := []\<rparr>)"
proof (induction "queue s" arbitrary: s n)
  case Nil
  then obtain m where "n = Suc m" by (cases n) auto
  with Nil show ?case by simp
next
  case (Cons t ts)
  from Cons.prems(2) Cons.hyps(2)[symmetric] obtain m where n: "n = Suc (Suc (Suc m))"
    by (cases n; cases "n - 1"; cases "n - 2") auto
  let ?s' = "s\<lparr>invoked := invoked s @ [label t], queue := ts\<rparr>"
  have pt: "reenters t = []" using Cons.prems(1) Cons.hyps(2)[symmetric] by simp
  have q: "ts = queue ?s'" by simp
  have all: "\<forall>t\<in>set (queue ?s'). reenters t = []"
    using Cons.prems(1) Cons.hyps(2)[symmetric] by simp
  have len: "length (queue ?s') + 2 \<le> Suc (Suc m)"
    using Cons.prems(2) Cons.hyps(2)[symmetric] n by simp
  have "processQueue (Suc (Suc m)) ?s' =
        Done (?s'\<lparr>invoked := invoked ?s' @ map label (queue ?s'), queue := []\<rparr>)"
    by (rule Cons.hyps(1)[OF q all len])
  then show ?case
    using Cons.hyps(2)[symmetric] pt n by simp
qed

lemma exec_plain:
  assumes "isConnected (adapter s)" "isActive s" "\<forall>t\<in>set (queue s). reenters t = []"
    "reenters f = []" "length (queue s) + 4 \<le> n"
  shows "exec n (Some f) s = Done (s\<lparr>invoked := invoked s @ map label (queue s) @ [label f], queue := []\<rparr>)"
proof -
  from assms(5) obtain m where n: "n = Suc m" by (cases n) auto
  let ?s1 = "s\<lparr>queue := queue s @ [f]\<rparr>"
  have "processQueue m ?s1 = Done (?s1\<lparr>invoked := invoked ?s1 @ map label (queue ?s1), queue := []\<rparr>)"
    by (rule drain_plain) (use assms n in auto)
  then show ?thesis using assms n by simp
qed

lemma kick_plain:
  assumes "isConnected (adapter s)" "isActive s" "\<forall>t\<in>set (queue s). reenters t = []"
    "length (queue s) + 3 \<le> n"
  shows "exec n None s = Done (s\<lparr>invoked := invoked s @ map label (queue s), queue := []\<rparr>)"
proof -
  from assms(4) obtain m where n: "n = Suc m" by (cases n) auto
  have "processQueue m s = Done (s\<lparr>invoked := invoked s @ map label (queue s), queue := []\<rparr>)"
    by (rule drain_plain) (use assms n in auto)
  then show ?thesis using assms n by simp
qed

lemma exec_gated:
  "\<not> (isConnected (adapter s) \<and> isActive s) \<Longrightarrow>
   \<exists>s'. exec (Suc n) f s = Done s' \<and> invoked s' = invoked s \<and> isActive s' = isActive s \<and>
        queue s' = queue s @ (case f of None \<Rightarrow> [] | Some t \<Rightarrow> [t]) \<and>
        (isConnected (adapter s') = isConnected (adapter s))"
  by (cases f) (auto simp: Let_def isConnected_def isClosed_def connect_def)

lemma stuck_overflows:
  "isConnected (adapter s) \<and> isActive s \<and> queue s \<noteq> [] \<and> reenters (hd (queue s)) \<noteq> [] \<Longrightarrow>
     (\<exists>s'. exec n (Some f) s = Overflow s') \<and>
     (\<exists>s'. processQueue n s = Overflow s') \<and>
     (\<exists>s'. apply_thunk n (hd (queue s)) s = Overflow s') \<and>
     (ts \<noteq> [] \<longrightarrow> (\<exists>s'. exec_each n ts s = Overflow s'))"
proof (induction n arbitrary: s f ts)
  case 0
  show ?case by simp
next
  case (Suc n)
  let ?s1 = "s\<lparr>queue := queue s @ [f]\<rparr>"
  let ?s2 = "s\<lparr>invoked := invoked s @ [label (hd (queue s))]\<rparr>"
  have st1: "isConnected (adapter ?s1) \<and> isActive ?s1 \<and> queue ?s1 \<noteq> [] \<and> reenters (hd (queue ?s1)) \<noteq> []"
    using Suc.prems by simp
  have st2: "isConnected (adapter ?s2) \<and> isActive ?s2 \<and> queue ?s2 \<noteq> [] \<and> reenters (hd (queue ?s2)) \<noteq> []"
    using Suc.prems by simp
  have a: "\<exists>s'. exec (Suc n) (Some f) s = Overflow s'"
    using Suc.IH[OF st1] Suc.prems by simp
  obtain t rest where q: "queue s = t # rest" using Suc.prems by (cases "queue s") auto
  have b: "\<exists>s'. processQueue (Suc n) s = Overflow s'"
  proof -
    from Suc.IH[OF Suc.prems, of f ts] obtain s' where "apply_thunk n (hd (queue s)) s = Overflow s'" by blast
    then show ?thesis using q by simp
  qed
  have c: "\<exists>s'. apply_thunk (Suc n) (hd (queue s)) s = Overflow s'"
    using Suc.IH[OF st2, of f "reenters (hd (queue s))"] Suc.prems by simp
  have d: "ts \<noteq> [] \<longrightarrow> (\<exists>s'. exec_each (Suc n) ts s = Overflow s')"
  proof
    assume "ts \<noteq> []"
    then obtain u us where ts: "ts = u # us" by (cases ts) auto
    from Suc.IH[OF Suc.prems, of u] obtain s' where "exec n (Some u) s = Overflow s'" by blast
    then show "\<exists>s'. exec_each (Suc n) ts s = Overflow s'" using ts by simp
  qed
  from a b c d show ?case by blast
qed

lemma reentrant_never_returns:
  "\<exists>s'. exec n (Some (Thunk a (b # bs))) \<lparr>adapter = Connected, queue = [], isActive = True, invoked = []\<rparr> = Overflow s'"
proof (cases n)
  case 0
  then show ?thesis by simp
next
  case (Suc m)
  let ?s1 = "\<lparr>adapter = Connected, queue = [Thunk a (b # bs)], isActive = True, invoked = []\<rparr>"
  have "isConnected (adapter ?s1) \<and> isActive ?s1 \<and> queue ?s1 \<noteq> [] \<and> reenters (hd (queue ?s1)) \<noteq> []"
    by (simp add: isConnected_def)
  from stuck_overflows[OF this, of m] obtain s' where "processQueue m ?s1 = Overflow s'" by blast
  then show ?thesis using Suc by (simp add: isConnected_def)
qed

lemma not_connected_run:
  "\<not> isConnected (adapter s) \<Longrightarrow> \<forall>e\<in>set evs. \<not> reconnects e \<Longrightarrow>
   \<exists>s'. run (Suc n) evs s = Done s' \<and> invoked s' = invoked s \<and> queue s' = queue s @ submitted evs
     \<and> \<not> isConnected (adapter s')"
proof (induction evs arbitrary: s)
  case Nil
  then show ?case by simp
next
  case (Cons e es)
  have "\<exists>s1. step (Suc n) e s = Done s1 \<and> invoked s1 = invoked s \<and> queue s1 = queue s @ submitted [e]
     \<and> \<not> isConnected (adapter s1)"
  proof (cases e)
    case (Exec f)
    then show ?thesis using exec_gated[of s n "Some f"] Cons.prems(1) by auto
  next
    case Kick
    then show ?thesis using exec_gated[of s n None] Cons.prems(1) by auto
  next
    case Start
    then show ?thesis using exec_gated[of "s\<lparr>isActive := True\<rparr>" n None] Cons.prems(1)
      by (auto simp: start_def)
  next
    case Stop
    then show ?thesis by (auto simp: stop_def isConnected_def isClosed_def Let_def)
  next
    case (Disconnect b)
    then show ?thesis using Cons.prems(1) by (auto simp: on_disconnected_def isConnected_def Let_def)
  next
    case (ConnectSuccess k)
    then show ?thesis using Cons.prems(2) by simp
  qed
  then obtain s1 where s1: "step (Suc n) e s = Done s1" "invoked s1 = invoked s"
    "queue s1 = queue s @ submitted [e]" "\<not> isConnected (adapter s1)" by blast
  from Cons.IH[OF s1(4)] Cons.prems(2) obtain s' where
    "run (Suc n) es s1 = Done s'" "invoked s' = invoked s1" "queue s' = queue s1 @ submitted es"
    "\<not> isConnected (adapter s')" by auto
  then show ?case using s1 by (cases e) auto
qed

lemma submitted_Exec: "submitted (map Exec fs) = fs"
  by (induction fs) auto

lemma run_append:
  "run n (xs @ ys) s = (case run n xs s of Overflow s' \<Rightarrow> Overflow s' | Done s' \<Rightarrow> run n ys s')"
  by (induction xs arbitrary: s) (auto split: result.splits)

text \<open>
  Thunks that make no call of \<open>exec\<close> while they run (as those of the CRUD methods) are
  invoked once each, in the order of the calls of \<open>exec\<close>: calls made before the adapter
  is connected only extend the queue, and the success of the connect request drains it.
\<close>

lemma plain_thunks_fifo:
  fixes s :: "('a, 'z) database_scheme"
  assumes nc: "\<not> isConnected (adapter s)" and q: "queue s = []"
    and plain: "\<forall>f\<in>set fs. reenters f = []" and fuel: "length fs + 5 \<le> n"
  shows "\<exists>s'. run n (map Exec fs @ [ConnectSuccess kick]) s = Done s' \<and>
              invoked s' = invoked s @ map label fs @ [kick] \<and> queue s' = []"
proof -
  from fuel obtain m where n: "n = Suc m" by (cases n) auto
  have "\<forall>e\<in>set (map Exec fs). \<not> reconnects e" by auto
  from not_connected_run[OF nc this, of m] obtain s1 where
    s1: "run n (map Exec fs) s = Done s1" "invoked s1 = invoked s" "queue s1 = fs"
    using n q by (auto simp: submitted_Exec)
  let ?s2 = "s1\<lparr>adapter := Connected, isActive := True\<rparr>"
  have k: "exec n None ?s2 = Done (?s2\<lparr>invoked := invoked ?s2 @ map label (queue ?s2), queue := []\<rparr>)"
    by (rule kick_plain) (use s1 plain fuel in \<open>auto simp: isConnected_def\<close>)
  let ?s3 = "?s2\<lparr>invoked := invoked ?s2 @ map label (queue ?s2), queue := []\<rparr>"
  have e: "exec n (Some (Thunk kick [])) ?s3 =
           Done (?s3\<lparr>invoked := invoked ?s3 @ map label (queue ?s3) @ [label (Thunk kick [])], queue := []\<rparr>)"
    by (rule exec_plain) (use fuel in \<open>auto simp: isConnected_def\<close>)
  have "onSuccess n kick s1 =
        Done (?s3\<lparr>invoked := invoked ?s3 @ map label (queue ?s3) @ [label (Thunk kick [])], queue := []\<rparr>)"
    using k e by (simp add: onSuccess_def start_def)
  then show ?thesis using s1 by (simp add: run_append)
qed

text \<open>
  C1 (FIFO, exactly once, including re-entrant calls of \<open>exec\<close>). The part of the claim
  on re-entrant calls fails on the code: \<open>processQueue\<close> invokes \<open>_queue[0]\<close> and shifts
  it only after the invocation has returned, so a thunk \<open>A\<close> that calls \<open>this.exec(B)\<close>
  on a connected, active Database is still the head of the queue when the nested
  \<open>processQueue\<close> runs, and is invoked again. With \<open>A = Thunk a [Thunk b []]\<close> the call
  \<open>exec(A)\<close> returns for no budget at all, and after seven steps \<open>A\<close> has been invoked
  twice and \<open>B\<close> not yet.
\<close>

theorem reentrant_exec_reinvokes_head:
  "(\<forall>n. \<exists>s'. exec n (Some (Thunk a [Thunk b []]))
            \<lparr>adapter = Connected, queue = [], isActive = True, invoked = []\<rparr> = Overflow s') \<and>
   exec 7 (Some (Thunk a [Thunk b []]))
        \<lparr>adapter = Connected, queue = [], isActive = True, invoked = []\<rparr>
     = Overflow \<lparr>adapter = Connected, queue = [Thunk a [Thunk b []], Thunk b []],
                 isActive = True, invoked = [a, a]\<rparr>"
proof
  show "\<forall>n. \<exists>s'. exec n (Some (Thunk a [Thunk b []]))
            \<lparr>adapter = Connected, queue = [], isActive = True, invoked = []\<rparr> = Overflow s'"
    using reentrant_never_returns[of _ a "Thunk b []" "[]"] by blast
  show "exec 7 (Some (Thunk a [Thunk b []]))
        \<lparr>adapter = Connected, queue = [], isActive = True, invoked = []\<rparr>
     = Overflow \<lparr>adapter = Connected, queue = [Thunk a [Thunk b []], Thunk b []],
                 isActive = True, invoked = [a, a]\<rparr>"
    by (simp add: eval_nat_numeral isConnected_def)
qed

text \<open>
  C9 (a disconnect event keeps the queue and halts draining). The listener of the
  disconnect event leaves \<open>_queue\<close> and the log as they are, whichever receiver it is
  called on. After the event the adapter is not connected, and through every later
  sequence of events in which the connection is not established again (calls of \<open>exec\<close>
  with or without a thunk, \<open>start\<close>, \<open>stop\<close>, further disconnects) every call returns,
  nothing is invoked, and the queue is the old queue followed by the thunks passed to
  \<open>exec\<close> meanwhile. In any state, \<open>exec\<close> invokes nothing unless the adapter is
  connected and the Database is active.
\<close>

theorem disconnect_keeps_queue_and_halts_draining:
  fixes s t :: "('a, 'z) database_scheme"
  shows "queue (on_disconnected b s) = queue s \<and> invoked (on_disconnected b s) = invoked s \<and>
    \<not> isConnected (adapter (on_disconnected b s)) \<and>
    (\<forall>evs n. (\<forall>e\<in>set evs. \<not> reconnects e) \<longrightarrow>
       (\<exists>s'. run (Suc n) evs (on_disconnected b s) = Done s' \<and> invoked s' = invoked s \<and>
             queue s' = queue s @ submitted evs)) \<and>
    (\<forall>f n. \<not> (isConnected (adapter t) \<and> isActive t) \<longrightarrow>
       (\<exists>t'. exec (Suc n) f t = Done t' \<and> invoked t' = invoked t \<and>
             queue t' = queue t @ (case f of None \<Rightarrow> [] | Some g \<Rightarrow> [g])))"
proof -
  have q: "queue (on_disconnected b s) = queue s" and i: "invoked (on_disconnected b s) = invoked s"
    and nc: "\<not> isConnected (adapter (on_disconnected b s))"
    by (auto simp: on_disconnected_def Let_def isConnected_def)
  have r: "\<exists>s'. run (Suc n) evs (on_disconnected b s) = Done s' \<and> invoked s' = invoked s \<and>
             queue s' = queue s @ submitted evs" if "\<forall>e\<in>set evs. \<not> reconnects e" for evs n
    using not_connected_run[OF nc that, of n] q i by auto
  have g: "\<exists>t'. exec (Suc n) f t = Done t' \<and> invoked t' = invoked t \<and>
             queue t' = queue t @ (case f of None \<Rightarrow> [] | Some g \<Rightarrow> [g])"
    if "\<not> (isConnected (adapter t) \<and> isActive t)" for f n
    using exec_gated[OF that, of n f] by blast
  from q i nc r g show ?thesis by blast
qed

theorem disconnect_keeps_queue_and_halts_draining_witness:
  "\<exists>s'. run 2 [Exec (Thunk (3::nat) []), Start, Kick, Stop, Exec (Thunk 4 [Thunk 5 []])]
          (on_disconnected True \<lparr>adapter = Connected, queue = [Thunk 1 [], Thunk 2 []],
                                 isActive = True, invoked = [0]\<rparr>) = Done s' \<and>
        invoked s' = [0] \<and>
        queue s' = [Thunk 1 [], Thunk 2 [], Thunk 3 [], Thunk 4 [Thunk 5 []]]"
proof -
  let ?evs = "[Exec (Thunk (3::nat) []), Start, Kick, Stop, Exec (Thunk 4 [Thunk 5 []])]"
  let ?s0 = "\<lparr>adapter = Connected, queue = [Thunk 1 [], Thunk 2 []], isActive = True,
              invoked = [0::nat]\<rparr>"
  have h: "\<forall>e\<in>set ?evs. \<not> reconnects e" by simp
  have "\<exists>s'. run (Suc 1) ?evs (on_disconnected True ?s0) = Done s' \<and> invoked s' = invoked ?s0 \<and>
             queue s' = queue ?s0 @ submitted ?evs"
    using disconnect_keeps_queue_and_halts_draining[of True ?s0] h by blast
  then obtain s' where a: "run (Suc 1) ?evs (on_disconnected True ?s0) = Done s'"
    "invoked s' = invoked ?s0" "queue s' = queue ?s0 @ submitted ?evs" by blast
  have "run 2 ?evs (on_disconnected True ?s0) = Done s'" using a(1) by (simp only: Suc_1)
  moreover have "invoked s' = [0]" using a(2) by simp
  moreover have "queue s' = [Thunk 1 [], Thunk 2 [], Thunk 3 [], Thunk 4 [Thunk 5 []]]"
    using a(3) by simp
  ultimately show ?thesis by blast
qed

section \<open>Properties of the CRUD methods\<close>

lemma get_update: "get (AList.update k v object) k' = (if k' = k then v else get object k')"
  by (simp add: get_def update_conv')

lemma get_absent: "k \<notin> fst ` set object \<Longrightarrow> get object k = Undefined"
proof -
  assume "k \<notin> fst ` set object"
  then have "map_of object k = None" by (simp add: map_of_eq_None_iff)
  then show ?thesis by (simp add: get_def)
qed

lemma get_fold_assign:
  "distinct ks \<Longrightarrow>
   get (fold (assign_default source) ks object) k =
     (if k \<in> set ks \<and> get object k = Undefined then get source k else get object k)"
proof (induction ks arbitrary: object)
  case Nil
  then show ?case by simp
next
  case (Cons a ks)
  then show ?case by (auto simp: assign_default_def get_update)
qed

lemma get_defaults1:
  "get (defaults1 object source) k = (if get object k = Undefined then get source k else get object k)"
  using get_fold_assign[of "remdups (map fst source)" source object k] get_absent[of k source]
  by (auto simp: defaults1_def)

lemma exec_heap:
  fixes s :: world
  shows "heap (state_of (exec n f s)) = heap s \<and>
         heap (state_of (processQueue n s)) = heap s \<and>
         heap (state_of (apply_thunk n t s)) = heap s \<and>
         heap (state_of (exec_each n ts s)) = heap s"
proof (induction n arbitrary: f s t ts)
  case 0
  show ?case by simp
next
  case (Suc n)
  have a: "heap (state_of (exec (Suc n) f s)) = heap s"
    using Suc.IH[of f "case f of None \<Rightarrow> s | Some g \<Rightarrow> s\<lparr>queue := queue s @ [g]\<rparr>"]
    by (cases f) (auto simp: Let_def)
  have b: "heap (state_of (processQueue (Suc n) s)) = heap s"
  proof (cases "queue s")
    case Nil
    then show ?thesis by simp
  next
    case (Cons u us)
    show ?thesis
    proof (cases "apply_thunk n u s")
      case (Done s')
      then have "heap s' = heap s" using Suc.IH[of f s u ts] by simp
      moreover have "heap (state_of (processQueue n (s'\<lparr>queue := tl (queue s')\<rparr>))) = heap s'"
        using Suc.IH[of f "s'\<lparr>queue := tl (queue s')\<rparr>" t ts] by simp
      ultimately show ?thesis using Cons Done by simp
    next
      case (Overflow s')
      then have "heap s' = heap s" using Suc.IH[of f s u ts] by simp
      then show ?thesis using Cons Overflow by simp
    qed
  qed
  have c: "heap (state_of (apply_thunk (Suc n) t s)) = heap s"
    using Suc.IH[of f "s\<lparr>invoked := invoked s @ [label t]\<rparr>" t "reenters t"] by simp
  have d: "heap (state_of (exec_each (Suc n) ts s)) = heap s"
  proof (cases ts)
    case Nil
    then show ?thesis by simp
  next
    case (Cons u us)
    show ?thesis
    proof (cases "exec n (Some u) s")
      case (Done s')
      then have "heap s' = heap s" using Suc.IH[of "Some u" s t ts] by simp
      moreover have "heap (state_of (exec_each n us s')) = heap s'"
        using Suc.IH[of f s' t us] by simp
      ultimately show ?thesis using Cons Done by simp
    next
      case (Overflow s')
      then have "heap s' = heap s" using Suc.IH[of "Some u" s t ts] by simp
      then show ?thesis using Cons Overflow by simp
    qed
  qed
  from a b c d show ?case by blast
qed

lemma defaults_Ref: "defaults h (Ref r) sources = (h(r := fill h sources (h r)), Ref r)"
  by (simp add: defaults_def)

lemma update_heap:
  "heap (state_of (update n whereProps saveProps (Ref r) w)) r =
     fill (heap w) [Obj [(''new'', Bool True), (''upsert'', Bool True)], queryOptions w] (heap w r)"
  using exec_heap[of n _ "w\<lparr>heap := (heap w)(r := fill (heap w) [Obj [(''new'', Bool True), (''upsert'', Bool True)], queryOptions w] (heap w r))\<rparr>"]
  by (simp add: update_def defaults_Ref)

lemma get_fill2:
  "get (fill h [Obj [(''new'', Bool True), (''upsert'', Bool True)], q] object) k =
     (if get object k \<noteq> Undefined then get object k
      else if k = ''new'' \<or> k = ''upsert'' then Bool True
      else get (source_of h q) k)"
proof -
  have g: "get [(''new'', Bool True), (''upsert'', Bool True)] k =
           (if k = ''new'' \<or> k = ''upsert'' then Bool True else Undefined)"
    by (simp add: get_def)
  have s: "source_of h (Obj [(''new'', Bool True), (''upsert'', Bool True)]) =
           [(''new'', Bool True), (''upsert'', Bool True)]"
    by (simp add: source_of_def)
  have "fill h [Obj [(''new'', Bool True), (''upsert'', Bool True)], q] object =
        defaults1 (defaults1 object [(''new'', Bool True), (''upsert'', Bool True)]) (source_of h q)"
    by (simp add: fill_def s)
  then show ?thesis by (simp only: get_defaults1 g) auto
qed

lemma get_fill1:
  "get (fill h [q] object) k =
     (if get object k = Undefined then get (source_of h q) k else get object k)"
  by (simp add: fill_def get_defaults1)

lemma op_heap:
  fixes w :: world
  shows "heap (state_of (exec n f (w\<lparr>heap := (heap w)(r := x)\<rparr>))) r = x"
  using exec_heap[of n f "w\<lparr>heap := (heap w)(r := x)\<rparr>"] by simp

text \<open>
  C10 (the options object of the caller is mutated in place). For each of \<open>findOne\<close>,
  \<open>findLatest\<close>, \<open>update\<close>, \<open>create\<close>, \<open>findAnimals\<close>, \<open>saveAnimal\<close> and
  \<open>removeAnimal\<close>, called with a reference \<open>Ref r\<close> to an object of the caller, the
  object at \<open>r\<close> is afterwards the old object filled with the defaults (whether or not
  the call of \<open>exec\<close> inside returns): every key that read \<open>undefined\<close> now reads as in
  the configured \<open>queryOptions\<close>, every other key is as before, and after \<open>update\<close> the
  keys \<open>upsert\<close> and \<open>new\<close> read \<open>true\<close> when they were absent.
\<close>

theorem options_object_mutated_in_place:
  fixes w :: world
  shows
  "heap (state_of (findOne n props (Ref r) w)) r = fill (heap w) [queryOptions w] (heap w r) \<and>
   heap (state_of (findLatest n (Ref r) w)) r = fill (heap w) [queryOptions w] (heap w r) \<and>
   heap (state_of (create n saveProps (Ref r) w)) r = fill (heap w) [queryOptions w] (heap w r) \<and>
   heap (state_of (findAnimals n props (Ref r) w)) r = fill (heap w) [queryOptions w] (heap w r) \<and>
   heap (state_of (saveAnimal n a (Ref r) w)) r = fill (heap w) [queryOptions w] (heap w r) \<and>
   heap (state_of (removeAnimal n a (Ref r) w)) r = fill (heap w) [queryOptions w] (heap w r) \<and>
   heap (state_of (update n whereProps saveProps (Ref r) w)) r =
     fill (heap w) [Obj [(''new'', Bool True), (''upsert'', Bool True)], queryOptions w] (heap w r) \<and>
   get (fill (heap w) [queryOptions w] (heap w r)) k =
     (if get (heap w r) k = Undefined then get (source_of (heap w) (queryOptions w)) k
      else get (heap w r) k) \<and>
   get (heap (state_of (update n whereProps saveProps (Ref r) w)) r) ''upsert'' =
     (if get (heap w r) ''upsert'' = Undefined then Bool True else get (heap w r) ''upsert'') \<and>
   get (heap (state_of (update n whereProps saveProps (Ref r) w)) r) ''new'' =
     (if get (heap w r) ''new'' = Undefined then Bool True else get (heap w r) ''new'')"
proof -
  have u: "heap (state_of (update n whereProps saveProps (Ref r) w)) r =
     fill (heap w) [Obj [(''new'', Bool True), (''upsert'', Bool True)], queryOptions w] (heap w r)"
    by (simp add: update_def defaults_Ref op_heap)
  have 1: "heap (state_of (findOne n props (Ref r) w)) r = fill (heap w) [queryOptions w] (heap w r)"
    by (simp add: findOne_def defaults_Ref op_heap)
  have 2: "heap (state_of (findLatest n (Ref r) w)) r = fill (heap w) [queryOptions w] (heap w r)"
    by (simp add: findLatest_def defaults_Ref op_heap)
  have 3: "heap (state_of (create n saveProps (Ref r) w)) r = fill (heap w) [queryOptions w] (heap w r)"
    by (simp add: create_def defaults_Ref op_heap)
  have 4: "heap (state_of (findAnimals n props (Ref r) w)) r = fill (heap w) [queryOptions w] (heap w r)"
    by (simp add: findAnimals_def defaults_Ref op_heap)
  have 5: "heap (state_of (saveAnimal n a (Ref r) w)) r = fill (heap w) [queryOptions w] (heap w r)"
    by (simp add: saveAnimal_def defaults_Ref op_heap)
  have 6: "heap (state_of (removeAnimal n a (Ref r) w)) r = fill (heap w) [queryOptions w] (heap w r)"
    by (simp add: removeAnimal_def defaults_Ref op_heap)
  have 7: "get (fill (heap w) [queryOptions w] (heap w r)) k =
     (if get (heap w r) k = Undefined then get (source_of (heap w) (queryOptions w)) k
      else get (heap w r) k)"
    by (rule get_fill1)
  have 8: "get (heap (state_of (update n whereProps saveProps (Ref r) w)) r) ''upsert'' =
     (if get (heap w r) ''upsert'' = Undefined then Bool True else get (heap w r) ''upsert'')"
    by (simp only: u get_fill2) simp
  have 9: "get (heap (state_of (update n whereProps saveProps (Ref r) w)) r) ''new'' =
     (if get (heap w r) ''new'' = Undefined then Bool True else get (heap w r) ''new'')"
    by (simp only: u get_fill2) simp
  from 1 2 3 4 5 6 u 7 8 9 show ?thesis by blast
qed

lemma update_runs:
  "update (n + 4) whereProps saveProps options
      \<lparr>adapter = Connected, queue = [], isActive = True, invoked = [], heap = h, queryOptions = q\<rparr>
   = Done \<lparr>adapter = Connected, queue = [], isActive = True,
           invoked = [UpdateT whereProps saveProps
                        (case options of
                           Obj literal \<Rightarrow>
                             snd (defaults h options [Obj [(''new'', Bool True), (''upsert'', Bool True)], q])
                         | _ \<Rightarrow> options)
                        (snd (defaults h options [Obj [(''new'', Bool True), (''upsert'', Bool True)], q]))],
           heap = fst (defaults h options [Obj [(''new'', Bool True), (''upsert'', Bool True)], q]),
           queryOptions = q\<rparr>"
proof -
  obtain h' opts where d: "defaults h options [Obj [(''new'', Bool True), (''upsert'', Bool True)], q] = (h', opts)"
    by (cases "defaults h options [Obj [(''new'', Bool True), (''upsert'', Bool True)], q]")
  let ?s = "\<lparr>adapter = Connected, queue = [], isActive = True, invoked = [], heap = h', queryOptions = q\<rparr>"
  let ?o = "case options of Obj literal \<Rightarrow> opts | _ \<Rightarrow> options"
  have "exec (n + 4) (Some (Thunk (UpdateT whereProps saveProps ?o opts) [])) ?s =
    Done (?s\<lparr>invoked := invoked ?s @ map label (queue ?s) @ [label (Thunk (UpdateT whereProps saveProps ?o opts) [])],
             queue := []\<rparr>)"
    by (rule exec_plain) (auto simp: isConnected_def)
  then show ?thesis using d by (cases options) (simp_all add: update_def)
qed

text \<open>
  C3 (\<open>update\<close> issues the find-one-and-update with \<open>upsert: true\<close> and \<open>new: true\<close> by
  default, also when \<open>options\<close> is omitted). With an options object of the caller the
  defaults are written into that object, which is what the thunk passes on. With
  \<open>options\<close> omitted the claim fails on the
  code: the defaults go into a fresh object \<open>_options\<close>, and the thunk passes \<open>options\<close>,
  which is \<open>undefined\<close>, to \<open>findOneAndUpdate\<close>: the operation is issued with neither
  \<open>upsert\<close> nor \<open>new\<close>.
\<close>

theorem update_without_options_passes_undefined:
  "update (n + 4) whereProps saveProps Undefined
      \<lparr>adapter = Connected, queue = [], isActive = True, invoked = [], heap = h, queryOptions = q\<rparr>
   = Done \<lparr>adapter = Connected, queue = [], isActive = True,
           invoked = [UpdateT whereProps saveProps Undefined
                        (Obj (fill h [Obj [(''new'', Bool True), (''upsert'', Bool True)], q] []))],
           heap = h, queryOptions = q\<rparr> \<and>
   thunk_body instantiate h (UpdateT whereProps saveProps Undefined opts) =
     Some (FindOneAndUpdate whereProps
             (AList.delete ''__v'' (AList.delete ''_id'' (instantiate saveProps))) Undefined) \<and>
   read_prop h Undefined ''upsert'' = Undefined \<and> read_prop h Undefined ''new'' = Undefined"
  using update_runs[of n whereProps saveProps Undefined h q]
  by (simp add: defaults_def thunk_body_def read_prop_def)

lemma delete_absent: "get (AList.delete k object) k = Undefined"
  by (simp add: get_def delete_conv')

lemma delete_other: "k' \<noteq> k \<Longrightarrow> get (AList.delete k object) k' = get object k'"
  by (simp add: get_def delete_conv')

text \<open>
  C6 (the write document of \<open>update\<close> has neither \<open>_id\<close> nor \<open>__v\<close>). On a connected,
  active Database, for every save payload, every options argument and whatever the
  schema makes of the payload, the thunk of \<open>update\<close> runs and calls \<open>findOneAndUpdate\<close>
  with a write document that has no key \<open>_id\<close> and no key \<open>__v\<close>; the options it passes
  are the caller's argument as it reads after the merge.
\<close>

theorem update_write_document_has_no_id_or_version:
  "\<exists>opts h' data.
     update (n + 4) whereProps saveProps options
       \<lparr>adapter = Connected, queue = [], isActive = True, invoked = [], heap = h, queryOptions = q\<rparr>
     = Done \<lparr>adapter = Connected, queue = [], isActive = True,
             invoked = [UpdateT whereProps saveProps
                          (case options of Obj literal \<Rightarrow> opts | _ \<Rightarrow> options) opts],
             heap = h', queryOptions = q\<rparr> \<and>
     thunk_body instantiate h'
         (UpdateT whereProps saveProps (case options of Obj literal \<Rightarrow> opts | _ \<Rightarrow> options) opts) =
       Some (FindOneAndUpdate whereProps data
               (case options of Obj literal \<Rightarrow> opts | _ \<Rightarrow> options)) \<and>
     ''_id'' \<notin> fst ` set data \<and> ''__v'' \<notin> fst ` set data \<and>
     get data ''_id'' = Undefined \<and> get data ''__v'' = Undefined"
proof -
  let ?data = "AList.delete ''__v'' (AList.delete ''_id'' (instantiate saveProps))"
  let ?d = "defaults h options [Obj [(''new'', Bool True), (''upsert'', Bool True)], q]"
  have a: "''__v'' \<notin> fst ` set ?data" by (rule delete_notin_dom)
  have "''_id'' \<notin> fst ` set (AList.delete ''_id'' (instantiate saveProps))" by (rule delete_notin_dom)
  moreover have "fst ` set ?data \<subseteq> fst ` set (AList.delete ''_id'' (instantiate saveProps))"
    by (rule dom_delete_subset)
  ultimately have b: "''_id'' \<notin> fst ` set ?data" by blast
  have c: "get ?data ''_id'' = Undefined" using b by (rule get_absent)
  have d: "get ?data ''__v'' = Undefined" using a by (rule get_absent)
  let ?o = "case options of Obj literal \<Rightarrow> snd ?d | _ \<Rightarrow> options"
  have t: "thunk_body instantiate (fst ?d) (UpdateT whereProps saveProps ?o (snd ?d)) =
       Some (FindOneAndUpdate whereProps ?data ?o)"
    by (simp add: thunk_body_def)
  from update_runs[of n whereProps saveProps options h q] t b a c d
  show ?thesis by blast
qed

lemma upsert_call:
  "fst (snd (upsert h searchProps saveData options callback)) =
     (if truthy (get searchProps ''petId'')
      then FindOneAndUpdate [(''petId'', get searchProps ''petId'')] saveData
             (snd (defaults h (if isPlainObject options then options else Obj [])
                     [Obj [(''upsert'', Bool True), (''new'', Bool True)]]))
      else Create saveData)"
  by (simp add: upsert_def Let_def split: prod.splits)

text \<open>
  C2 (decision rule of the domain \<open>upsert\<close>). The call that \<open>upsert\<close> makes on the model
  is a find-one-and-update with the filter \<open>{petId: searchProps.petId}\<close> and the save
  data exactly when \<open>searchProps.petId\<close> is truthy, and \<open>create(saveData)\<close> otherwise. In
  particular a non-empty string as \<open>petId\<close> gives the find-one-and-update keyed by it,
  and an absent, \<open>null\<close> or empty \<open>petId\<close> gives the unconditional create.
\<close>

theorem upsert_decision_rule:
  "fst (snd (upsert h searchProps saveData options callback)) =
     (if truthy (get searchProps ''petId'')
      then FindOneAndUpdate [(''petId'', get searchProps ''petId'')] saveData
             (snd (defaults h (if isPlainObject options then options else Obj [])
                     [Obj [(''upsert'', Bool True), (''new'', Bool True)]]))
      else Create saveData) \<and>
   (\<forall>s. get searchProps ''petId'' = Str s \<and> s \<noteq> [] \<longrightarrow>
      (\<exists>opts. fst (snd (upsert h searchProps saveData options callback)) =
               FindOneAndUpdate [(''petId'', Str s)] saveData opts)) \<and>
   (get searchProps ''petId'' = Undefined \<or> get searchProps ''petId'' = Null \<or>
    get searchProps ''petId'' = Str [] \<longrightarrow>
      fst (snd (upsert h searchProps saveData options callback)) = Create saveData)"
  using upsert_call[of h searchProps saveData options callback] by auto

theorem upsert_decision_rule_witness:
  "(\<exists>opts. fst (snd (upsert (\<lambda>_. []) [(''petId'', Str ''abc'')] [(''name'', Str ''Rex'')]
                        (Obj [(''isV1Format'', Bool True)]) (Fn 1))) =
            FindOneAndUpdate [(''petId'', Str ''abc'')] [(''name'', Str ''Rex'')] opts) \<and>
   fst (snd (upsert (\<lambda>_. []) [(''species'', Str ''cat'')] [(''name'', Str ''New'')]
                        (Obj [(''isV1Format'', Bool True)]) (Fn 1))) = Create [(''name'', Str ''New'')]"
proof -
  have a: "get [(''petId'', Str ''abc'')] ''petId'' = Str ''abc'' \<and> ''abc'' \<noteq> []"
    by (simp add: get_def)
  have b: "get [(''species'', Str ''cat'')] ''petId'' = Undefined"
    by (simp add: get_def)
  from upsert_decision_rule[of "\<lambda>_. []" "[(''petId'', Str ''abc'')]" "[(''name'', Str ''Rex'')]"
      "Obj [(''isV1Format'', Bool True)]" "Fn 1"] a
  have 1: "\<exists>opts. fst (snd (upsert (\<lambda>_. []) [(''petId'', Str ''abc'')] [(''name'', Str ''Rex'')]
                        (Obj [(''isV1Format'', Bool True)]) (Fn 1))) =
            FindOneAndUpdate [(''petId'', Str ''abc'')] [(''name'', Str ''Rex'')] opts"
    by blast
  from upsert_decision_rule[of "\<lambda>_. []" "[(''species'', Str ''cat'')]" "[(''name'', Str ''New'')]"
      "Obj [(''isV1Format'', Bool True)]" "Fn 1"] b
  have 2: "fst (snd (upsert (\<lambda>_. []) [(''species'', Str ''cat'')] [(''name'', Str ''New'')]
                        (Obj [(''isV1Format'', Bool True)]) (Fn 1))) = Create [(''name'', Str ''New'')]"
    by blast
  from 1 2 show ?thesis by blast
qed

















text \<open>
  C5 (a store error reaches the completion callback and nothing throws). The claim fails
  on the code for \<open>findAnimals\<close> and \<open>create\<close>. When \<open>find\<close> reports an error, the
  static method calls back with the error alone, and the callback of \<open>findAnimals\<close>
  evaluates \<open>animals.map(...)\<close> on \<open>undefined\<close> before it can call \<open>complete\<close>: a
  TypeError whenever a completion callback is configured. When \<open>save\<close> reports an error,
  the callback of \<open>create\<close> reads \<open>savedDoc.toObject\<close> of \<open>undefined\<close>: a TypeError in
  every case. The sibling \<open>update\<close> hands the wrapped error and \<open>{}\<close> to \<open>complete\<close>.
\<close>

theorem store_error_makes_findAnimals_and_create_throw:
  "findAnimals_reply render h opts (driver_reply (Error ''store failure'') animals) =
     (if truthy (read_prop h opts ''complete'') then Threw ''TypeError'' else Silent) \<and>
   create_done h opts (driver_reply (Error ''store failure'') savedDoc) = Threw ''TypeError'' \<and>
   update_done h opts (driver_reply (Error ''store failure'') savedDoc) =
     complete_apply h opts [DBError (Error ''store failure''), Obj []]"
  by (simp add: findAnimals_reply_def static_findAnimals_found_def findAnimals_done_def
      create_done_def update_done_def driver_reply_def)


text \<open>
  C8 (\<open>findLatest\<close> caches the document and forwards the cache's error). When the driver
  reports no error and the collection has a latest document \<open>d\<close>, exactly one save is
  requested of the cache: format \<open>json\<close>, the document \<open>d\<close>, in the directory \<open>data/\<close>
  under the working directory, under the name made of the configured species name (or,
  when that is absent or empty, the collection or model name), a dot, and the date of the
  document's timestamp. The completion callback is then invoked with the error reported
  by the cache for that save as first argument and the document as second.
\<close>

theorem findLatest_caches_and_forwards_cache_error:
  assumes found: "latest_of collection = Some d" and noerr: "\<not> truthy err"
  shows "findLatest_reply moment_format speciesName fallbackName cwd cache_error h opts
           (findOne_sorted err collection) =
     ([\<lparr>format = ''json'', payload = d,
        cache_name = (case speciesName of None \<Rightarrow> fallbackName
                      | Some name \<Rightarrow> if name \<noteq> [] then name else fallbackName)
                     @ ''.'' @ moment_format (get (doc_fields d) ''timestamp''),
        cache_dir = path_join cwd ''data/''\<rparr>],
      [if truthy (read_prop h opts ''complete'')
       then invoke (read_prop h opts ''complete'') opts
              [cache_error \<lparr>format = ''json'', payload = d,
                 cache_name = (case speciesName of None \<Rightarrow> fallbackName
                               | Some name \<Rightarrow> if name \<noteq> [] then name else fallbackName)
                              @ ''.'' @ moment_format (get (doc_fields d) ''timestamp''),
                 cache_dir = path_join cwd ''data/''\<rparr>,
               doc_obj d]
       else Silent])"
  using found noerr
  by (simp add: findLatest_reply_def findOne_sorted_def getLatest_found_def findLatest_found_def
      complete_call_def cacheData_def cacheNamespace_def findLatest_cached_def)

theorem findLatest_caches_and_forwards_cache_error_witness:
  "findLatest_reply (\<lambda>_. ''1.2.2017'') None ''prod_species'' ''/app'' (\<lambda>_. Error ''disk full'')
       (\<lambda>_. [(''complete'', Fn 3)]) (Ref 0)
       (findOne_sorted Null [\<lparr>oid = 1, doc_fields = [(''timestamp'', Num 5)]\<rparr>,
                             \<lparr>oid = 2, doc_fields = [(''timestamp'', Num 9)]\<rparr>]) =
     ([\<lparr>format = ''json'', payload = \<lparr>oid = 2, doc_fields = [(''timestamp'', Num 9)]\<rparr>,
        cache_name = ''prod_species.1.2.2017'', cache_dir = ''/app/data/''\<rparr>],
      [Called (Fn 3) (Ref 0)
         [Error ''disk full'', Obj [(''_id'', ObjectId 2), (''timestamp'', Num 9)]]])"
proof -
  have 1: "latest_of [\<lparr>oid = 1, doc_fields = [(''timestamp'', Num 5)]\<rparr>,
                       \<lparr>oid = 2, doc_fields = [(''timestamp'', Num 9)]\<rparr>] =
           Some \<lparr>oid = 2, doc_fields = [(''timestamp'', Num 9)]\<rparr>"
    by (simp add: stamp_less_def get_def)
  have 2: "\<not> truthy Null" by simp
  from findLatest_caches_and_forwards_cache_error[OF 1 2, of "\<lambda>_. ''1.2.2017''" None "''prod_species''"
      "''/app''" "\<lambda>_. Error ''disk full''" "\<lambda>_. [(''complete'', Fn 3)]" "Ref 0"]
  show ?thesis
    by (simp add: read_prop_def get_def invoke_def doc_obj_def path_join_def)
qed


lemma exec_heap1:
  fixes s :: world
  shows "heap (state_of (exec n f s)) = heap s"
  using exec_heap[of n f s] by blast

lemma update_mutates_example:
  "heap (state_of (update n whereProps saveProps (Ref 0)
      \<lparr>adapter = a, queue = qu, isActive = b, invoked = i, heap = (\<lambda>_. []), queryOptions = Undefined\<rparr>)) 0
   = [(''new'', Bool True), (''upsert'', Bool True)]"
  by (simp add: update_def defaults_Ref exec_heap1 fill_def defaults1_def assign_default_def get_def
      source_of_def)

end
